theory Spec2Isabelle
  imports Complex_Main "HOL-Library.Sublist"
begin

section \<open>Python values used by the feedback analyser\<close>

text \<open>
  The development embeds \<^verbatim>\<open>src/app.py\<close>: the sentiment classifier
  \<^verbatim>\<open>SimpleSentimentAnalyzer.predict_sentiment\<close>, the record store
  \<^verbatim>\<open>SimpleDatabase\<close> and the request handlers \<^verbatim>\<open>analyze_feedback\<close>,
  \<^verbatim>\<open>batch_analyze\<close> and \<^verbatim>\<open>get_statistics\<close>.

  Conventions of the embedding.
  \<^item> A Python \<^verbatim>\<open>str\<close> is a \<^typ>\<open>string\<close> whose characters are the code points
    below 256.
  \<^item> A Python \<^verbatim>\<open>float\<close> is a \<^typ>\<open>rat\<close>: arithmetic is exact, the rounding
    of IEEE doubles is not modelled.
  \<^item> A raised exception is the \<open>Inl\<close> of a sum type; \<^verbatim>\<open>try ... except Exception\<close>
    is a case distinction on it.
  \<^item> What the program reads from outside (the TextBlob analyser, the clock, whether
    SQLite fails) is a parameter.
\<close>

datatype exn =
    TypeError string
  | KeyError string
  | AttributeError string
  | DatabaseError string
  | AnalyzerError string

fun str_exn :: "exn \<Rightarrow> string" where
  \<comment> \<open>\<^verbatim>\<open>str(e)\<close>: the message of the exception\<close>
  "str_exn (TypeError m) = m"
| "str_exn (KeyError m) = m"
| "str_exn (AttributeError m) = m"
| "str_exn (DatabaseError m) = m"
| "str_exn (AnalyzerError m) = m"

subsection \<open>Decoded JSON\<close>

datatype json =
    JNull
  | JBool bool
  | JInt int
  | JFloat rat
  | JStr string
  | JList "json list"
  | JObj "(string \<times> json) list"

fun truthy :: "json \<Rightarrow> bool" where
  \<comment> \<open>Python's truth value, as \<^verbatim>\<open>not x\<close> and \<^verbatim>\<open>x if x else y\<close> test it\<close>
  "truthy JNull = False"
| "truthy (JBool b) = b"
| "truthy (JInt i) = (i \<noteq> 0)"
| "truthy (JFloat r) = (r \<noteq> 0)"
| "truthy (JStr s) = (s \<noteq> [])"
| "truthy (JList xs) = (xs \<noteq> [])"
| "truthy (JObj kvs) = (kvs \<noteq> [])"

subsection \<open>Strings\<close>

definition py_lower_char :: "char \<Rightarrow> char" where
  \<comment> \<open>\<^verbatim>\<open>str.lower\<close> on one code point below 256: A-Z and the Latin-1 capitals
      (all of 192..222 but the multiplication sign 215) move up by 32.\<close>
  "py_lower_char c =
     (let n = (of_char c :: nat)
      in if (65 \<le> n \<and> n \<le> 90) \<or> (192 \<le> n \<and> n \<le> 222 \<and> n \<noteq> 215)
         then char_of (n + 32) else c)"

definition py_lower :: "string \<Rightarrow> string" where
  "py_lower s = map py_lower_char s"

definition py_isspace :: "char \<Rightarrow> bool" where
  \<comment> \<open>the code points below 256 that \<^verbatim>\<open>str.strip()\<close> removes\<close>
  "py_isspace c =
     (let n = (of_char c :: nat)
      in (9 \<le> n \<and> n \<le> 13) \<or> (28 \<le> n \<and> n \<le> 32) \<or> n = 133 \<or> n = 160)"

definition py_strip :: "string \<Rightarrow> string" where
  "py_strip s = rev (dropWhile py_isspace (rev (dropWhile py_isspace s)))"

fun py_in :: "string \<Rightarrow> string \<Rightarrow> bool" where
  \<comment> \<open>\<^verbatim>\<open>word in text\<close> on two strings: \<open>word\<close> occurs as a contiguous piece\<close>
  "py_in w [] = (w = [])"
| "py_in w (c # cs) = (prefix w (c # cs) \<or> py_in w cs)"

fun py_contains :: "string \<Rightarrow> json \<Rightarrow> exn + bool" where
  \<comment> \<open>\<^verbatim>\<open>key in data\<close>: a key of a dict, an element of a list, a piece of a string;
      a \<^verbatim>\<open>TypeError\<close> on a value that is no container\<close>
  "py_contains k (JObj kvs) = Inr (k \<in> fst ` set kvs)"
| "py_contains k (JList xs) = Inr (JStr k \<in> set xs)"
| "py_contains k (JStr s) = Inr (py_in k s)"
| "py_contains k _ = Inl (TypeError ''argument is not iterable'')"

fun py_getitem :: "json \<Rightarrow> string \<Rightarrow> exn + json" where
  \<comment> \<open>\<^verbatim>\<open>data[key]\<close> with a string key\<close>
  "py_getitem (JObj kvs) k =
     (case map_of kvs k of Some v \<Rightarrow> Inr v | None \<Rightarrow> Inl (KeyError k))"
| "py_getitem (JList xs) k = Inl (TypeError ''list indices must be integers or slices, not str'')"
| "py_getitem (JStr s) k = Inl (TypeError ''string indices must be integers'')"
| "py_getitem _ k = Inl (TypeError ''object is not subscriptable'')"

fun py_get :: "json \<Rightarrow> string \<Rightarrow> json \<Rightarrow> exn + json" where
  \<comment> \<open>\<^verbatim>\<open>data.get(key, default)\<close>, a method of dicts only\<close>
  "py_get (JObj kvs) k d = (case map_of kvs k of Some v \<Rightarrow> Inr v | None \<Rightarrow> Inr d)"
| "py_get _ k d = Inl (AttributeError ''object has no attribute get'')"

definition py_round :: "rat \<Rightarrow> nat \<Rightarrow> rat" where
  \<comment> \<open>\<^verbatim>\<open>round(x, ndigits)\<close>: to the nearest multiple of \<open>10 ^ - ndigits\<close>, a tie to the
      even one\<close>
  "py_round x ndigits =
     (let scaled = x * 10 ^ ndigits;
          fl = \<lfloor>scaled\<rfloor>;
          frac = scaled - of_int fl;
          n = (if frac < 1 / 2 then fl
               else if 1 / 2 < frac then fl + 1
               else if even fl then fl else fl + 1)
      in of_int n / 10 ^ ndigits)"

section \<open>The classifier\<close>

record sentiment_result =
  sentiment :: string
  confidence :: rat
  model_type :: string

definition positive_words :: "string list" where
  "positive_words =
     [''good'', ''great'', ''excellent'', ''amazing'', ''love'', ''perfect'', ''awesome'',
      ''fantastic'', ''wonderful'', ''outstanding'', ''superb'', ''brilliant'']"

definition negative_words :: "string list" where
  "negative_words =
     [''bad'', ''terrible'', ''awful'', ''hate'', ''poor'', ''worst'', ''horrible'',
      ''disappointing'', ''pathetic'', ''useless'', ''garbage'', ''disgusting'']"

definition count_words :: "string list \<Rightarrow> string \<Rightarrow> nat" where
  \<comment> \<open>\<^verbatim>\<open>sum(1 for word in words if word in text_lower)\<close>\<close>
  "count_words ws text_lower = length (filter (\<lambda>word. py_in word text_lower) ws)"

definition keyword_fallback :: "string \<Rightarrow> sentiment_result" where
  \<comment> \<open>lines 50-72 of \<^verbatim>\<open>predict_sentiment\<close>, the part after the TextBlob block\<close>
  "keyword_fallback text =
     (let text_lower = py_lower text;
          positive_count = count_words positive_words text_lower;
          negative_count = count_words negative_words text_lower
      in if positive_count > negative_count then
           \<lparr>sentiment = ''positive'',
            confidence = min (of_nat positive_count * 0.3) 1.0,
            model_type = ''keyword_fallback''\<rparr>
         else if negative_count > positive_count then
           \<lparr>sentiment = ''negative'',
            confidence = min (of_nat negative_count * 0.3) 1.0,
            model_type = ''keyword_fallback''\<rparr>
         else
           \<lparr>sentiment = ''neutral'', confidence = 0.1, model_type = ''keyword_fallback''\<rparr>)"

record analyzer =
  textblob_available :: bool
    \<comment> \<open>\<^verbatim>\<open>TEXTBLOB_AVAILABLE\<close>: whether the import of TextBlob succeeded\<close>
  textblob_polarity :: "string \<Rightarrow> exn + rat"
    \<comment> \<open>\<^verbatim>\<open>TextBlob(text).sentiment.polarity\<close>, which may raise\<close>

definition predict_sentiment :: "analyzer \<Rightarrow> string \<Rightarrow> exn + sentiment_result" where
  "predict_sentiment tb text =
     (if textblob_available tb then
        (case textblob_polarity tb text of
           Inr polarity \<Rightarrow>
             Inr \<lparr>sentiment =
                    (if polarity > 0.1 then ''positive''
                     else if polarity < - 0.1 then ''negative''
                     else ''neutral''),
                  confidence = \<bar>polarity\<bar>,
                  model_type = ''textblob''\<rparr>
         | Inl e \<Rightarrow> Inr (keyword_fallback text))
      else Inr (keyword_fallback text))"

section \<open>The record store\<close>

record prediction =
  row_id :: nat
  input_text :: string
  sentiment_label :: string
  sentiment_confidence :: rat
  topics :: "json option"
  metadata :: "json option"
  created_at :: string

text \<open>
  The table \<^verbatim>\<open>predictions\<close> in insertion order, and the largest id given out so far,
  which \<^verbatim>\<open>AUTOINCREMENT\<close> keeps. The columns \<open>topics\<close> and \<open>metadata\<close> hold the value
  that \<^verbatim>\<open>json.dumps\<close> serialises, \<open>None\<close> for SQL \<^verbatim>\<open>NULL\<close>.
\<close>

record database =
  predictions :: "prediction list"
  sqlite_sequence :: nat

definition empty_database :: database where
  "empty_database = \<lparr>predictions = [], sqlite_sequence = 0\<rparr>"

record sqlite_call =
  fault :: "exn option"
    \<comment> \<open>the exception raised inside this \<^verbatim>\<open>with sqlite3.connect(...)\<close> block (by
        connect, execute, fetch or commit), if any\<close>
  current_timestamp :: string
    \<comment> \<open>\<^verbatim>\<open>CURRENT_TIMESTAMP\<close> at this call\<close>

definition dumps_if :: "json option \<Rightarrow> json option" where
  \<comment> \<open>\<^verbatim>\<open>json.dumps(x) if x else None\<close>\<close>
  "dumps_if x = (case x of None \<Rightarrow> None | Some v \<Rightarrow> if truthy v then Some v else None)"

definition insert_prediction ::
  "sqlite_call \<Rightarrow> database \<Rightarrow> string \<Rightarrow> string \<Rightarrow> rat \<Rightarrow> json option \<Rightarrow> json option
     \<Rightarrow> exn + (nat \<times> database)" where
  \<comment> \<open>the \<^verbatim>\<open>with\<close> block of \<^verbatim>\<open>store_prediction\<close>: connect, insert, read
      \<^verbatim>\<open>lastrowid\<close>, commit; a failure anywhere leaves the table as it was\<close>
  "insert_prediction call db text label conf tps md =
     (case fault call of
        Some e \<Rightarrow> Inl e
      | None \<Rightarrow>
          let topics_json = dumps_if tps;
              metadata_json = dumps_if md;
              lastrowid = Suc (sqlite_sequence db)
          in Inr (lastrowid,
                  \<lparr>predictions = predictions db @
                     [\<lparr>row_id = lastrowid, input_text = text, sentiment_label = label,
                       sentiment_confidence = conf, topics = topics_json,
                       metadata = metadata_json, created_at = current_timestamp call\<rparr>],
                   sqlite_sequence = lastrowid\<rparr>))"

definition store_prediction ::
  "sqlite_call \<Rightarrow> database \<Rightarrow> string \<Rightarrow> string \<Rightarrow> rat \<Rightarrow> json option \<Rightarrow> json option
     \<Rightarrow> exn + (nat option \<times> database)" where
  \<comment> \<open>\<open>None\<close> is Python's \<^verbatim>\<open>None\<close>, returned by the \<^verbatim>\<open>except Exception\<close> branch\<close>
  "store_prediction call db text label conf tps md =
     (case insert_prediction call db text label conf tps md of
        Inr (lastrowid, db') \<Rightarrow> Inr (Some lastrowid, db')
      | Inl e \<Rightarrow> Inr (None, db))"

datatype stat_value =
    Count nat
  | Distribution "(string \<times> nat) list"
  | Average rat

definition sentiment_dist :: "prediction list \<Rightarrow> (string \<times> nat) list" where
  \<comment> \<open>\<^verbatim>\<open>SELECT sentiment_label, COUNT(*) ... GROUP BY sentiment_label\<close> as the dict
      built from it: one entry for each label that occurs\<close>
  "sentiment_dist rows =
     (let labels = map sentiment_label rows
      in map (\<lambda>l. (l, length (filter (\<lambda>r. sentiment_label r = l) rows))) (remdups labels))"

definition sql_avg :: "rat list \<Rightarrow> rat option" where
  \<comment> \<open>\<^verbatim>\<open>AVG\<close>: \<^verbatim>\<open>NULL\<close> over no rows\<close>
  "sql_avg xs = (if xs = [] then None else Some (sum_list xs / of_nat (length xs)))"

definition select_statistics ::
  "sqlite_call \<Rightarrow> database \<Rightarrow> exn + (string \<times> stat_value) list" where
  \<comment> \<open>the \<^verbatim>\<open>with\<close> block of \<^verbatim>\<open>get_statistics\<close>; the result is the dict it returns\<close>
  "select_statistics call db =
     (case fault call of
        Some e \<Rightarrow> Inl e
      | None \<Rightarrow>
          let total_predictions = length (predictions db);
              avg_confidence =
                (case sql_avg (map sentiment_confidence (predictions db)) of
                   None \<Rightarrow> 0.0
                 | Some a \<Rightarrow> if a = 0 then 0.0 else a)
          in Inr [(''total_predictions'', Count total_predictions),
                  (''sentiment_distribution'', Distribution (sentiment_dist (predictions db))),
                  (''average_confidence'', Average (py_round avg_confidence 4))])"

definition get_statistics ::
  "sqlite_call \<Rightarrow> database \<Rightarrow> exn + (string \<times> stat_value) list" where
  \<comment> \<open>the \<^verbatim>\<open>except Exception\<close> branch returns the empty dict\<close>
  "get_statistics call db =
     (case select_statistics call db of
        Inr stats \<Rightarrow> Inr stats
      | Inl e \<Rightarrow> Inr [])"

section \<open>The request handlers\<close>

text \<open>
  An entry of \<^verbatim>\<open>results\<close> is either the success dict
  \<^verbatim>\<open>{'index', 'text', 'sentiment': {'label', 'confidence'}, 'topics': []}\<close> or the error
  dict \<^verbatim>\<open>{'index', 'text', 'error'}\<close>. A response body is an error message, the single
  analysis (text, sentiment, timestamp, analysis id; its \<^verbatim>\<open>topics\<close> are always empty)
  or the batch (results, processed count, timestamp).
\<close>

datatype outcome =
    Success (item_index: nat) (item_text: string) (item_label: string) (item_confidence: rat)
  | Failure (item_index: nat) (item_text: string) (item_error: string)

datatype body =
    ErrorBody string
  | AnalysisBody string sentiment_result string "nat option"
  | BatchBody "outcome list" nat string

type_synonym response = "nat \<times> body"

definition analyze_try ::
  "analyzer \<Rightarrow> sqlite_call \<Rightarrow> string \<Rightarrow> database \<Rightarrow> json \<Rightarrow> exn + (response \<times> database)" where
  \<comment> \<open>the outer \<^verbatim>\<open>try\<close> block of \<^verbatim>\<open>analyze_feedback\<close>; \<open>data\<close> is
      \<^verbatim>\<open>request.get_json()\<close>, \<open>now\<close> is \<^verbatim>\<open>datetime.now(timezone.utc).isoformat()\<close>\<close>
  "analyze_try tb call now db data =
     (if \<not> truthy data then Inr ((400, ErrorBody ''Missing text field in request''), db)
      else
       (case py_contains ''text'' data of
          Inl e \<Rightarrow> Inl e
        | Inr has_text \<Rightarrow>
            if \<not> has_text then Inr ((400, ErrorBody ''Missing text field in request''), db)
            else
             (case py_getitem data ''text'' of
                Inl e \<Rightarrow> Inl e
              | Inr (JStr s) \<Rightarrow>
                  if s = [] \<or> length (py_strip s) = 0
                  then Inr ((400, ErrorBody ''Invalid text input''), db)
                  else
                   (case predict_sentiment tb s of
                      Inl e \<Rightarrow> Inl e
                    | Inr sentiment_result \<Rightarrow>
                        let stored =
                              (case py_get data ''metadata'' (JObj []) of
                                 Inl e \<Rightarrow> (None, db)
                               | Inr md \<Rightarrow>
                                   (case store_prediction call db s (sentiment sentiment_result)
                                           (confidence sentiment_result) None (Some md) of
                                      Inl e \<Rightarrow> (None, db)
                                    | Inr (analysis_id, db') \<Rightarrow> (analysis_id, db')))
                        in Inr ((200, AnalysisBody s sentiment_result now (fst stored)),
                                snd stored))
              | Inr _ \<Rightarrow> Inr ((400, ErrorBody ''Invalid text input''), db))))"

definition analyze_feedback ::
  "analyzer \<Rightarrow> sqlite_call \<Rightarrow> string \<Rightarrow> database \<Rightarrow> json \<Rightarrow> response \<times> database" where
  "analyze_feedback tb call now db data =
     (case analyze_try tb call now db data of
        Inr r \<Rightarrow> r
      | Inl e \<Rightarrow> ((500, ErrorBody (''Analysis failed: '' @ str_exn e)), db))"

definition batch_item ::
  "analyzer \<Rightarrow> sqlite_call \<Rightarrow> nat \<Rightarrow> string \<Rightarrow> outcome list \<Rightarrow> database
     \<Rightarrow> exn option \<times> outcome list \<times> database" where
  \<comment> \<open>the \<^verbatim>\<open>try\<close> block of the loop of \<^verbatim>\<open>batch_analyze\<close> after the type test:
      the exception that left it, if any, with \<open>results\<close> and the table as they were then\<close>
  "batch_item tb call i s results db =
     (case predict_sentiment tb s of
        Inl e \<Rightarrow> (Some e, results, db)
      | Inr sentiment_result \<Rightarrow>
          let results1 = results @
                [Success i s (sentiment sentiment_result) (confidence sentiment_result)]
          in (case store_prediction call db s (sentiment sentiment_result)
                     (confidence sentiment_result) None None of
                Inl e \<Rightarrow> (Some e, results1, db)
              | Inr (rid, db') \<Rightarrow> (None, results1, db')))"

fun batch_loop ::
  "analyzer \<Rightarrow> (nat \<Rightarrow> sqlite_call) \<Rightarrow> nat \<Rightarrow> json list \<Rightarrow> outcome list \<Rightarrow> database
     \<Rightarrow> outcome list \<times> database" where
  \<comment> \<open>\<^verbatim>\<open>for i, text in enumerate(texts)\<close> from index \<open>i\<close> on; \<open>calls i\<close> is what SQLite
      does at the insert for item \<open>i\<close>\<close>
  "batch_loop tb calls i [] results db = (results, db)"
| "batch_loop tb calls i (text # texts) results db =
     (case text of
        JStr s \<Rightarrow>
          if s = [] then batch_loop tb calls (Suc i) texts results db
          else (case batch_item tb (calls i) i s results db of
                  (None, results', db') \<Rightarrow> batch_loop tb calls (Suc i) texts results' db'
                | (Some e, results', db') \<Rightarrow>
                    batch_loop tb calls (Suc i) texts
                      (results' @ [Failure i s (str_exn e)]) db')
      | _ \<Rightarrow> batch_loop tb calls (Suc i) texts results db)"

definition batch_try ::
  "analyzer \<Rightarrow> (nat \<Rightarrow> sqlite_call) \<Rightarrow> string \<Rightarrow> database \<Rightarrow> json
     \<Rightarrow> exn + (response \<times> database)" where
  \<comment> \<open>the outer \<^verbatim>\<open>try\<close> block of \<^verbatim>\<open>batch_analyze\<close>\<close>
  "batch_try tb calls now db data =
     (if \<not> truthy data then Inr ((400, ErrorBody ''Missing texts field in request''), db)
      else
       (case py_contains ''texts'' data of
          Inl e \<Rightarrow> Inl e
        | Inr has_texts \<Rightarrow>
            if \<not> has_texts then Inr ((400, ErrorBody ''Missing texts field in request''), db)
            else
             (case py_getitem data ''texts'' of
                Inl e \<Rightarrow> Inl e
              | Inr (JList texts) \<Rightarrow>
                  if length texts = 0
                  then Inr ((400, ErrorBody ''texts must be a non-empty list''), db)
                  else if length texts > 100
                  then Inr ((400, ErrorBody ''Batch size too large (max 100)''), db)
                  else
                   (case batch_loop tb calls 0 texts [] db of
                      (results, db') \<Rightarrow>
                        Inr ((200, BatchBody results (length results) now), db'))
              | Inr _ \<Rightarrow> Inr ((400, ErrorBody ''texts must be a non-empty list''), db))))"

definition batch_analyze ::
  "analyzer \<Rightarrow> (nat \<Rightarrow> sqlite_call) \<Rightarrow> string \<Rightarrow> database \<Rightarrow> json \<Rightarrow> response \<times> database" where
  "batch_analyze tb calls now db data =
     (case batch_try tb calls now db data of
        Inr r \<Rightarrow> r
      | Inl e \<Rightarrow> ((500, ErrorBody (''Batch analysis failed: '' @ str_exn e)), db))"

section \<open>Notions of the specification\<close>



definition mean_confidence :: "prediction list \<Rightarrow> rat" where
  "mean_confidence rows =
     (if rows = [] then 0
      else sum_list (map sentiment_confidence rows) / of_nat (length rows))"

definition zeroed_snapshot :: "(string \<times> stat_value) list" where
  "zeroed_snapshot =
     [(''total_predictions'', Count 0),
      (''sentiment_distribution'', Distribution []),
      (''average_confidence'', Average 0)]"

text \<open>
  A well-formed batch item is a non-empty string; a success outcome is an entry that
  carries a label and a confidence, not an error.
\<close>

fun is_nonempty_str :: "json \<Rightarrow> bool" where
  "is_nonempty_str (JStr s) = (s \<noteq> [])"
| "is_nonempty_str _ = False"

fun is_success :: "outcome \<Rightarrow> bool" where
  "is_success (Success i s l c) = True"
| "is_success (Failure i s e) = False"

text \<open>
  One pass of the loop of \<open>batch_analyze\<close>, read off its body: the entries that the item
  at index \<open>j\<close> appends to the results, and the table after it.
\<close>

definition item_outcomes :: "analyzer \<Rightarrow> nat \<Rightarrow> json \<Rightarrow> outcome list" where
  "item_outcomes tb j t =
     (case t of
        JStr s \<Rightarrow>
          if s = [] then []
          else (case predict_sentiment tb s of
                  Inr r \<Rightarrow> [Success j s (sentiment r) (confidence r)]
                | Inl e \<Rightarrow> [Failure j s (str_exn e)])
      | _ \<Rightarrow> [])"

definition item_store :: "analyzer \<Rightarrow> sqlite_call \<Rightarrow> json \<Rightarrow> database \<Rightarrow> database" where
  "item_store tb call t db =
     (case t of
        JStr s \<Rightarrow>
          if s = [] then db
          else (case predict_sentiment tb s of
                  Inr r \<Rightarrow>
                    (case store_prediction call db s (sentiment r) (confidence r) None None of
                       Inr (rid, db') \<Rightarrow> db'
                     | Inl e \<Rightarrow> db)
                | Inl e \<Rightarrow> db)
      | _ \<Rightarrow> db)"

section \<open>Sample environments\<close>

text \<open>
  Three TextBlob situations: the import failed; the import succeeded but the analyser
  raises; the analyser answers polarity \<open>0.5\<close>.
\<close>

definition textblob_missing :: analyzer where
  "textblob_missing =
     \<lparr>textblob_available = False,
      textblob_polarity = (\<lambda>text. Inl (AnalyzerError ''TextBlob is not installed''))\<rparr>"

definition textblob_broken :: analyzer where
  "textblob_broken =
     \<lparr>textblob_available = True,
      textblob_polarity = (\<lambda>text. Inl (AnalyzerError ''missing corpus''))\<rparr>"

definition textblob_half :: analyzer where
  "textblob_half = \<lparr>textblob_available = True, textblob_polarity = (\<lambda>text. Inr 0.5)\<rparr>"

text \<open>
  Two SQLite situations: every statement succeeds; the database file cannot be opened. The
  sample store is what the batch endpoint leaves in an empty database after the texts
  \<^verbatim>\<open>ok\<close>, \<^verbatim>\<open>fine\<close> and \<^verbatim>\<open>good\<close>, classified by the keyword model.
\<close>

definition sqlite_ok :: sqlite_call where
  "sqlite_ok = \<lparr>fault = None, current_timestamp = ''2024-05-01 12:00:00''\<rparr>"

definition sqlite_down :: sqlite_call where
  "sqlite_down =
     \<lparr>fault = Some (DatabaseError ''unable to open database file''),
      current_timestamp = ''2024-05-01 12:00:00''\<rparr>"

definition sample_store :: database where
  "sample_store =
     snd (batch_analyze textblob_missing (\<lambda>i. sqlite_ok) ''2024-05-01T12:00:00+00:00''
            empty_database (JObj [(''texts'', JList [JStr ''ok'', JStr ''fine'', JStr ''good''])]))"

section \<open>Properties of the classifier\<close>

subsection \<open>Substring search and the word lists\<close>

lemma py_in_sublist: "py_in w t = sublist w t"
  by (induction t) (auto simp: sublist_Cons_right)

lemma py_in_iff: "py_in w t \<longleftrightarrow> (\<exists>ps ss. t = ps @ w @ ss)"
  by (simp add: py_in_sublist sublist_def)








subsection \<open>The keyword model\<close>



subsection \<open>Both paths of the classifier\<close>

lemma keyword_fallback_range:
  "0 \<le> confidence (keyword_fallback text) \<and> confidence (keyword_fallback text) \<le> 1
   \<and> sentiment (keyword_fallback text) \<in> {''positive'', ''negative'', ''neutral''}"
  by (simp add: keyword_fallback_def Let_def)

lemma predict_sentiment_cases:
  "predict_sentiment tb text =
     Inr (if textblob_available tb then
            (case textblob_polarity tb text of
               Inr polarity \<Rightarrow>
                 \<lparr>sentiment =
                    (if polarity > 0.1 then ''positive''
                     else if polarity < - 0.1 then ''negative'' else ''neutral''),
                  confidence = \<bar>polarity\<bar>, model_type = ''textblob''\<rparr>
             | Inl e \<Rightarrow> keyword_fallback text)
          else keyword_fallback text)"
  by (simp add: predict_sentiment_def split: sum.split)

lemma predict_sentiment_total: "\<exists>r. predict_sentiment tb text = Inr r"
  by (simp add: predict_sentiment_cases)

text \<open>
  Claim C7. For every non-empty text the classifier returns a confidence in the closed
  interval from \<open>0\<close> to \<open>1\<close> and one of the labels \<^verbatim>\<open>positive\<close>,
  \<^verbatim>\<open>negative\<close>, \<^verbatim>\<open>neutral\<close>: on the primary path, where the confidence is the
  absolute value of a polarity between \<open>-1\<close> and \<open>1\<close>, and on the fallback path.
\<close>

theorem predict_sentiment_range:
  assumes "text \<noteq> []"
    and "\<And>p. textblob_available tb \<Longrightarrow> textblob_polarity tb text = Inr p \<Longrightarrow> - 1 \<le> p \<and> p \<le> 1"
  shows "\<exists>r. predict_sentiment tb text = Inr r \<and> 0 \<le> confidence r \<and> confidence r \<le> 1
           \<and> sentiment r \<in> {''positive'', ''negative'', ''neutral''}"
proof (cases "textblob_available tb")
  case False
  then have "predict_sentiment tb text = Inr (keyword_fallback text)"
    by (simp add: predict_sentiment_def)
  then show ?thesis
    using keyword_fallback_range [of "text"] by simp
next
  case True
  show ?thesis
  proof (cases "textblob_polarity tb text")
    case (Inl e)
    with True have "predict_sentiment tb text = Inr (keyword_fallback text)"
      by (simp add: predict_sentiment_def)
    then show ?thesis
      using keyword_fallback_range [of "text"] by simp
  next
    case (Inr p)
    with True assms(2) have "- 1 \<le> p" and "p \<le> 1" by auto
    then have "0 \<le> \<bar>p\<bar>" and "\<bar>p\<bar> \<le> 1" by auto
    with True Inr show ?thesis
      by (simp add: predict_sentiment_def)
  qed
qed

theorem predict_sentiment_range_witness:
  "''I love it'' \<noteq> []
   \<and> predict_sentiment textblob_half ''I love it'' =
       Inr \<lparr>sentiment = ''positive'', confidence = 0.5, model_type = ''textblob''\<rparr>
   \<and> (\<exists>r. predict_sentiment textblob_half ''I love it'' = Inr r
          \<and> 0 \<le> confidence r \<and> confidence r \<le> 1
          \<and> sentiment r \<in> {''positive'', ''negative'', ''neutral''})"
  using predict_sentiment_range [of "''I love it''" textblob_half]
  by (simp add: textblob_half_def predict_sentiment_def)



section \<open>Properties of the record store\<close>

subsection \<open>Inserting\<close>

lemma store_prediction_ok:
  "fault call = None \<Longrightarrow>
   store_prediction call db t l c tps md =
     Inr (Some (Suc (sqlite_sequence db)),
          \<lparr>predictions = predictions db @
             [\<lparr>row_id = Suc (sqlite_sequence db), input_text = t, sentiment_label = l,
               sentiment_confidence = c, topics = dumps_if tps, metadata = dumps_if md,
               created_at = current_timestamp call\<rparr>],
           sqlite_sequence = Suc (sqlite_sequence db)\<rparr>)"
  by (simp add: store_prediction_def insert_prediction_def Let_def)

lemma store_prediction_fault:
  "fault call = Some e \<Longrightarrow> store_prediction call db t l c tps md = Inr (None, db)"
  by (simp add: store_prediction_def insert_prediction_def)

lemma store_prediction_total:
  "\<exists>rid db'. store_prediction call db t l c tps md = Inr (rid, db')"
  by (cases "fault call") (simp_all add: store_prediction_ok store_prediction_fault)

lemma py_strip_nonempty: "py_strip s \<noteq> [] \<Longrightarrow> s \<noteq> []"
  by (auto simp: py_strip_def)

lemma analyze_feedback_valid:
  assumes "map_of kvs ''text'' = Some (JStr s)" and "py_strip s \<noteq> []"
    and "predict_sentiment tb s = Inr r"
  shows "analyze_feedback tb call now db (JObj kvs) =
     ((200, AnalysisBody s r now
              (fst (case store_prediction call db s (sentiment r) (confidence r) None
                           (Some (case map_of kvs ''metadata'' of Some v \<Rightarrow> v | None \<Rightarrow> JObj [])) of
                      Inl e \<Rightarrow> (None, db) | Inr (analysis_id, db') \<Rightarrow> (analysis_id, db')))),
      snd (case store_prediction call db s (sentiment r) (confidence r) None
                           (Some (case map_of kvs ''metadata'' of Some v \<Rightarrow> v | None \<Rightarrow> JObj [])) of
                      Inl e \<Rightarrow> (None, db) | Inr (analysis_id, db') \<Rightarrow> (analysis_id, db')))"
proof -
  have kvs: "kvs \<noteq> []" using assms(1) by auto
  have key: "''text'' \<in> fst ` set kvs"
    using assms(1) by (metis map_of_eq_None_iff option.distinct(1))
  have s: "s \<noteq> []" using assms(2) by (rule py_strip_nonempty)
  show ?thesis
    using kvs key s assms
    by (simp add: analyze_feedback_def analyze_try_def Let_def split: option.split)
qed

text \<open>
  Claim C6. \<open>store_prediction\<close> never raises to its caller: whatever its arguments and
  whatever SQLite does, it returns. When SQLite succeeds it returns the id of the new row;
  when SQLite fails it returns \<^verbatim>\<open>None\<close> and leaves the table alone. A storage failure
  therefore does not fail the classification response: \<open>analyze_feedback\<close> on a valid
  text still answers 200, with \<^verbatim>\<open>analysis_id\<close> \<^verbatim>\<open>None\<close>.
\<close>

theorem store_prediction_never_raises:
  "(\<exists>rid db'. store_prediction call db t l c tps md = Inr (rid, db'))
   \<and> (fault call = None \<longrightarrow>
        store_prediction call db t l c tps md =
          Inr (Some (Suc (sqlite_sequence db)),
               \<lparr>predictions = predictions db @
                  [\<lparr>row_id = Suc (sqlite_sequence db), input_text = t, sentiment_label = l,
                    sentiment_confidence = c, topics = dumps_if tps, metadata = dumps_if md,
                    created_at = current_timestamp call\<rparr>],
                sqlite_sequence = Suc (sqlite_sequence db)\<rparr>))
   \<and> (fault call \<noteq> None \<longrightarrow> store_prediction call db t l c tps md = Inr (None, db))
   \<and> (fault call \<noteq> None \<and> map_of kvs ''text'' = Some (JStr s) \<and> py_strip s \<noteq> [] \<longrightarrow>
        (\<exists>r. predict_sentiment tb s = Inr r
           \<and> analyze_feedback tb call now db (JObj kvs) = ((200, AnalysisBody s r now None), db)))"
proof (intro conjI impI)
  show "\<exists>rid db'. store_prediction call db t l c tps md = Inr (rid, db')"
    by (rule store_prediction_total)
next
  assume "fault call = None"
  then show "store_prediction call db t l c tps md =
          Inr (Some (Suc (sqlite_sequence db)),
               \<lparr>predictions = predictions db @
                  [\<lparr>row_id = Suc (sqlite_sequence db), input_text = t, sentiment_label = l,
                    sentiment_confidence = c, topics = dumps_if tps, metadata = dumps_if md,
                    created_at = current_timestamp call\<rparr>],
                sqlite_sequence = Suc (sqlite_sequence db)\<rparr>)"
    by (rule store_prediction_ok)
next
  assume "fault call \<noteq> None"
  then show "store_prediction call db t l c tps md = Inr (None, db)"
    by (auto simp: store_prediction_fault)
next
  assume a: "fault call \<noteq> None \<and> map_of kvs ''text'' = Some (JStr s) \<and> py_strip s \<noteq> []"
  then obtain e where e: "fault call = Some e" by auto
  obtain r where r: "predict_sentiment tb s = Inr r"
    using predict_sentiment_total by blast
  have "analyze_feedback tb call now db (JObj kvs) = ((200, AnalysisBody s r now None), db)"
    using a r by (simp add: analyze_feedback_valid store_prediction_fault [OF e])
  with r show "\<exists>r. predict_sentiment tb s = Inr r
           \<and> analyze_feedback tb call now db (JObj kvs) = ((200, AnalysisBody s r now None), db)"
    by blast
qed

theorem store_prediction_never_raises_witness:
  "store_prediction sqlite_ok empty_database ''I love it'' ''positive'' 0.3 None None
     = Inr (Some 1,
            \<lparr>predictions =
               [\<lparr>row_id = 1, input_text = ''I love it'', sentiment_label = ''positive'',
                 sentiment_confidence = 0.3, topics = None, metadata = None,
                 created_at = ''2024-05-01 12:00:00''\<rparr>],
             sqlite_sequence = 1\<rparr>)
   \<and> store_prediction sqlite_down empty_database ''I love it'' ''positive'' 0.3 None None
     = Inr (None, empty_database)
   \<and> analyze_feedback textblob_missing sqlite_down ''now'' empty_database
       (JObj [(''text'', JStr ''I love it'')])
     = ((200, AnalysisBody ''I love it''
               \<lparr>sentiment = ''positive'', confidence = 0.3, model_type = ''keyword_fallback''\<rparr>
               ''now'' None), empty_database)"
proof -
  have kf: "keyword_fallback ''I love it'' =
      \<lparr>sentiment = ''positive'', confidence = 0.3, model_type = ''keyword_fallback''\<rparr>"
    by code_simp
  have st: "py_strip ''I love it'' \<noteq> []"
    by code_simp
  show ?thesis
    using store_prediction_never_raises
      [of sqlite_down empty_database "''I love it''" "''positive''" "0.3" None None
          "[(''text'', JStr ''I love it'')]" "''I love it''" textblob_missing "''now''"]
      store_prediction_never_raises
      [of sqlite_ok empty_database "''I love it''" "''positive''" "0.3" None None
          "[(''text'', JStr ''I love it'')]" "''I love it''" textblob_missing "''now''"]
    by (simp add: st kf sqlite_down_def sqlite_ok_def textblob_missing_def
          predict_sentiment_def empty_database_def dumps_if_def)
qed

subsection \<open>Statistics\<close>




lemma select_average:
  "(case sql_avg (map sentiment_confidence rows) of None \<Rightarrow> 0.0 | Some a \<Rightarrow> if a = 0 then 0.0 else a)
     = mean_confidence rows"
  by (simp add: sql_avg_def mean_confidence_def)

lemma get_statistics_ok:
  "fault call = None \<Longrightarrow>
   get_statistics call db =
     Inr [(''total_predictions'', Count (length (predictions db))),
          (''sentiment_distribution'', Distribution (sentiment_dist (predictions db))),
          (''average_confidence'', Average (py_round (mean_confidence (predictions db)) 4))]"
  by (simp add: get_statistics_def select_statistics_def Let_def select_average)

lemma get_statistics_fault:
  "fault call = Some e \<Longrightarrow> get_statistics call db = Inr []"
  by (simp add: get_statistics_def select_statistics_def)








subsection \<open>The empty and the unreadable store\<close>

text \<open>
  Claim C4 as stated fails for the unreadable store: when the read raises,
  \<open>get_statistics\<close> returns the empty dict, which has none of the three fields of a
  snapshot, and not the zeroed snapshot.
\<close>

theorem unreadable_store_counterexample:
  "get_statistics sqlite_down empty_database = Inr []
   \<and> get_statistics sqlite_down empty_database \<noteq> Inr zeroed_snapshot"
  by (simp add: get_statistics_def select_statistics_def sqlite_down_def zeroed_snapshot_def)

text \<open>
  Claim C4, amended. \<open>get_statistics\<close> returns the zeroed snapshot (total \<open>0\<close>, empty
  distribution, average \<open>0.0\<close>) when the store is readable and empty; when the read
  fails it returns the empty dict, without raising.
\<close>

theorem get_statistics_empty_or_unreadable:
  "(fault call = None \<and> predictions db = [] \<longrightarrow> get_statistics call db = Inr zeroed_snapshot)
   \<and> (fault call \<noteq> None \<longrightarrow> get_statistics call db = Inr [])"
proof (intro conjI impI)
  assume "fault call = None \<and> predictions db = []"
  moreover have "py_round 0 4 = 0"
    by (simp add: py_round_def)
  ultimately show "get_statistics call db = Inr zeroed_snapshot"
    by (simp add: get_statistics_ok mean_confidence_def sentiment_dist_def zeroed_snapshot_def)
next
  assume "fault call \<noteq> None"
  then show "get_statistics call db = Inr []"
    by (auto simp: get_statistics_fault)
qed

theorem get_statistics_empty_or_unreadable_witness:
  "get_statistics sqlite_ok empty_database =
     Inr [(''total_predictions'', Count 0),
          (''sentiment_distribution'', Distribution []),
          (''average_confidence'', Average 0)]
   \<and> get_statistics sqlite_down sample_store = Inr []"
  using get_statistics_empty_or_unreadable [of sqlite_ok empty_database]
    get_statistics_empty_or_unreadable [of sqlite_down sample_store]
  by (simp add: sqlite_ok_def sqlite_down_def empty_database_def zeroed_snapshot_def)

section \<open>Properties of the batch endpoint\<close>

subsection \<open>The loop, item by item\<close>

lemma batch_item_eq:
  assumes "s \<noteq> []"
  shows "batch_item tb call i s results db =
           (None, results @ item_outcomes tb i (JStr s), item_store tb call (JStr s) db)"
proof -
  obtain r where r: "predict_sentiment tb s = Inr r"
    using predict_sentiment_total by blast
  obtain rid db' where st:
    "store_prediction call db s (sentiment r) (confidence r) None None = Inr (rid, db')"
    using store_prediction_total by blast
  show ?thesis
    using assms r st
    by (simp add: batch_item_def item_outcomes_def item_store_def Let_def)
qed

lemma batch_loop_Cons:
  "batch_loop tb calls i (t # ts) results db =
     batch_loop tb calls (Suc i) ts (results @ item_outcomes tb i t) (item_store tb (calls i) t db)"
proof (cases "is_nonempty_str t")
  case True
  then obtain s where t: "t = JStr s" and s: "s \<noteq> []"
    by (cases t) auto
  show ?thesis
    unfolding t using s by (simp add: batch_item_eq)
next
  case False
  then show ?thesis
    by (cases t) (simp_all add: item_outcomes_def item_store_def)
qed

lemma batch_loop_results:
  "fst (batch_loop tb calls i texts results db) =
     results @ concat (map (\<lambda>(j, t). item_outcomes tb j t) (enumerate i texts))"
proof (induction texts arbitrary: i results db)
  case Nil
  show ?case by simp
next
  case (Cons t ts)
  show ?case
    unfolding batch_loop_Cons by (simp add: Cons.IH)
qed

lemma item_outcomes_cases:
  "item_outcomes tb j t = [] \<and> \<not> is_nonempty_str t
   \<or> (\<exists>s r. t = JStr s \<and> s \<noteq> [] \<and> predict_sentiment tb s = Inr r
          \<and> item_outcomes tb j t = [Success j s (sentiment r) (confidence r)])"
proof (cases "is_nonempty_str t")
  case True
  then obtain s where t: "t = JStr s" and s: "s \<noteq> []"
    by (cases t) auto
  obtain r where r: "predict_sentiment tb s = Inr r"
    using predict_sentiment_total by blast
  show ?thesis
    using t s r by (simp add: item_outcomes_def)
next
  case False
  then show ?thesis
    by (cases t) (simp_all add: item_outcomes_def)
qed

lemma item_outcomes_index:
  "map item_index (item_outcomes tb j t) = (if is_nonempty_str t then [j] else [])"
  using item_outcomes_cases [of tb j t] by auto

lemma concat_item_index:
  "map item_index (concat (map (\<lambda>(j, t). item_outcomes tb j t) (enumerate i ts)))
     = map fst (filter (\<lambda>(j, t). is_nonempty_str t) (enumerate i ts))"
  by (induction ts arbitrary: i) (simp_all add: item_outcomes_index)

lemma enumerate_filter_index:
  "map fst (filter (\<lambda>(j, t). P t) (enumerate 0 xs)) = filter (\<lambda>j. P (xs ! j)) [0..<length xs]"
proof -
  have "enumerate 0 xs = map (\<lambda>j. (j, xs ! j)) [0..<length xs]"
    by (rule nth_equalityI) (simp_all add: nth_enumerate_eq)
  then show ?thesis
    by (simp add: filter_map comp_def)
qed

lemma batch_analyze_accepted:
  assumes "map_of kvs ''texts'' = Some (JList xs)" and "xs \<noteq> []" and "length xs \<le> 100"
  shows "batch_analyze tb calls now db (JObj kvs) =
     ((200, BatchBody (fst (batch_loop tb calls 0 xs [] db))
              (length (fst (batch_loop tb calls 0 xs [] db))) now),
      snd (batch_loop tb calls 0 xs [] db))"
proof -
  have kvs: "kvs \<noteq> []" using assms(1) by auto
  have key: "''texts'' \<in> fst ` set kvs"
    using assms(1) by (metis map_of_eq_None_iff option.distinct(1))
  show ?thesis
    using kvs key assms
    by (simp add: batch_analyze_def batch_try_def split: prod.split)
qed

lemma batch_analyze_rejected:
  assumes "map_of kvs ''texts'' = Some (JList xs)" and "xs = [] \<or> length xs > 100"
  shows "batch_analyze tb calls now db (JObj kvs) =
     ((400, ErrorBody (if xs = [] then ''texts must be a non-empty list''
                       else ''Batch size too large (max 100)'')), db)"
proof -
  have kvs: "kvs \<noteq> []" using assms(1) by auto
  have key: "''texts'' \<in> fst ` set kvs"
    using assms(1) by (metis map_of_eq_None_iff option.distinct(1))
  show ?thesis
    using kvs key assms
    by (auto simp: batch_analyze_def batch_try_def)
qed

lemma batch_results_entries:
  assumes "x \<in> set (fst (batch_loop tb calls 0 xs [] db))"
  shows "\<exists>j s r. j < length xs \<and> xs ! j = JStr s \<and> s \<noteq> [] \<and> predict_sentiment tb s = Inr r
           \<and> x = Success j s (sentiment r) (confidence r)"
proof -
  from assms obtain j t where jt: "(j, t) \<in> set (enumerate 0 xs)" and x: "x \<in> set (item_outcomes tb j t)"
    by (auto simp: batch_loop_results)
  from jt have j: "j < length xs" and t: "xs ! j = t"
    by (auto simp: in_set_enumerate_eq)
  from x item_outcomes_cases [of tb j t] obtain s r where "t = JStr s" "s \<noteq> []"
      "predict_sentiment tb s = Inr r" "x = Success j s (sentiment r) (confidence r)"
    by auto
  with j t show ?thesis by blast
qed

lemma batch_results_indices:
  "map item_index (fst (batch_loop tb calls 0 xs [] db)) =
     filter (\<lambda>j. is_nonempty_str (xs ! j)) [0..<length xs]"
  by (simp add: batch_loop_results concat_item_index enumerate_filter_index)

lemma item_store_mono:
  "set (predictions db) \<subseteq> set (predictions (item_store tb call t db))
   \<and> sqlite_sequence db \<le> sqlite_sequence (item_store tb call t db)"
proof (cases "is_nonempty_str t")
  case True
  then obtain s where t: "t = JStr s" and s: "s \<noteq> []"
    by (cases t) auto
  obtain r where r: "predict_sentiment tb s = Inr r"
    using predict_sentiment_total by blast
  show ?thesis
  proof (cases "fault call")
    case None
    then show ?thesis
      using t s r by (auto simp: item_store_def store_prediction_ok)
  next
    case (Some e)
    then show ?thesis
      using t s r by (simp add: item_store_def store_prediction_fault)
  qed
next
  case False
  then show ?thesis
    by (cases t) (simp_all add: item_store_def)
qed

lemma item_store_persists:
  assumes "s \<noteq> []" and "fault call = None" and "predict_sentiment tb s = Inr r"
  shows "\<exists>row \<in> set (predictions (item_store tb call (JStr s) db)).
           input_text row = s \<and> sentiment_label row = sentiment r
           \<and> sentiment_confidence row = confidence r \<and> sqlite_sequence db < row_id row"
  using assms by (simp add: item_store_def store_prediction_ok)

lemma batch_loop_mono:
  "set (predictions db) \<subseteq> set (predictions (snd (batch_loop tb calls i ts results db)))
   \<and> sqlite_sequence db \<le> sqlite_sequence (snd (batch_loop tb calls i ts results db))"
proof (induction ts arbitrary: i results db)
  case Nil
  show ?case by simp
next
  case (Cons t ts)
  show ?case
    unfolding batch_loop_Cons
    using Cons.IH [of "item_store tb (calls i) t db" "Suc i" "results @ item_outcomes tb i t"]
      item_store_mono [of db tb "calls i" t]
    by auto
qed

lemma batch_loop_persists:
  assumes "j < length ts" and "ts ! j = JStr s" and "s \<noteq> []"
    and "fault (calls (i + j)) = None" and "predict_sentiment tb s = Inr r"
  shows "\<exists>row \<in> set (predictions (snd (batch_loop tb calls i ts results db))).
           input_text row = s \<and> sentiment_label row = sentiment r
           \<and> sentiment_confidence row = confidence r \<and> sqlite_sequence db < row_id row"
  using assms
proof (induction ts arbitrary: i j results db)
  case Nil
  then show ?case by simp
next
  case (Cons t ts)
  let ?db1 = "item_store tb (calls i) t db"
  let ?rs1 = "results @ item_outcomes tb i t"
  show ?case
  proof (cases j)
    case 0
    with Cons.prems have t: "t = JStr s" and ok: "fault (calls i) = None"
      by simp_all
    from item_store_persists [OF Cons.prems(3) ok Cons.prems(5), of db]
    obtain row where row: "row \<in> set (predictions ?db1)" "input_text row = s"
        "sentiment_label row = sentiment r" "sentiment_confidence row = confidence r"
        "sqlite_sequence db < row_id row"
      unfolding t by blast
    from row(1) batch_loop_mono [of ?db1 tb calls "Suc i" ts ?rs1]
    have "row \<in> set (predictions (snd (batch_loop tb calls (Suc i) ts ?rs1 ?db1)))"
      by blast
    with row show ?thesis
      unfolding batch_loop_Cons by blast
  next
    case (Suc j')
    with Cons.prems have "j' < length ts" "ts ! j' = JStr s" "fault (calls (Suc i + j')) = None"
      by simp_all
    from Cons.IH [OF this(1) this(2) Cons.prems(3) this(3) Cons.prems(5), of ?rs1 ?db1]
    obtain row where row: "row \<in> set (predictions (snd (batch_loop tb calls (Suc i) ts ?rs1 ?db1)))"
        "input_text row = s" "sentiment_label row = sentiment r"
        "sentiment_confidence row = confidence r" "sqlite_sequence ?db1 < row_id row"
      by blast
    from row(5) item_store_mono [of db tb "calls i" t] have "sqlite_sequence db < row_id row"
      by simp
    with row show ?thesis
      unfolding batch_loop_Cons by blast
  qed
qed

subsection \<open>Whitespace-only texts\<close>

lemma py_lower_char_space: "py_isspace c \<Longrightarrow> py_lower_char c = c"
  by (auto simp: py_isspace_def py_lower_char_def Let_def)

lemma py_in_set: "py_in w t \<Longrightarrow> set w \<subseteq> set t"
  by (auto simp: py_in_iff)

lemma words_not_blank:
  "\<forall>w \<in> set (positive_words @ negative_words). \<exists>c \<in> set w. \<not> py_isspace c"
proof -
  have "list_all (\<lambda>w. list_ex (\<lambda>c. \<not> py_isspace c) w) (positive_words @ negative_words)"
    by code_simp
  then show ?thesis
    by (simp add: list_all_iff list_ex_iff)
qed

lemma count_words_blank:
  assumes "\<forall>c \<in> set s. py_isspace c" and "set ws \<subseteq> set (positive_words @ negative_words)"
  shows "count_words ws (py_lower s) = 0"
proof -
  have low: "py_lower s = s"
    using assms(1) by (simp add: py_lower_def py_lower_char_space map_idI)
  have "\<not> py_in w s" if "w \<in> set ws" for w
  proof
    assume "py_in w s"
    then have "set w \<subseteq> set s" by (rule py_in_set)
    moreover from that assms(2) words_not_blank obtain c where "c \<in> set w" "\<not> py_isspace c"
      by blast
    ultimately show False using assms(1) by blast
  qed
  then show ?thesis
    by (simp add: count_words_def low)
qed

lemma keyword_fallback_blank:
  assumes "\<forall>c \<in> set s. py_isspace c"
  shows "keyword_fallback s =
           \<lparr>sentiment = ''neutral'', confidence = 0.1, model_type = ''keyword_fallback''\<rparr>"
  using count_words_blank [OF assms, of positive_words] count_words_blank [OF assms, of negative_words]
  by (simp add: keyword_fallback_def Let_def)

lemma py_strip_blank:
  assumes "\<forall>c \<in> set s. py_isspace c"
  shows "py_strip s = []"
proof -
  have d: "dropWhile py_isspace s = []"
    using assms by (simp add: dropWhile_eq_Nil_conv)
  show ?thesis
    unfolding py_strip_def d by simp
qed

lemma analyze_feedback_blank:
  assumes "\<forall>c \<in> set s. py_isspace c" and "map_of kvs ''text'' = Some (JStr s)"
  shows "analyze_feedback tb call now db (JObj kvs) =
           ((400, ErrorBody ''Invalid text input''), db)"
proof -
  have kvs: "kvs \<noteq> []" using assms(2) by auto
  have key: "''text'' \<in> fst ` set kvs"
    using assms(2) by (metis map_of_eq_None_iff option.distinct(1))
  show ?thesis
    using py_strip_blank [OF assms(1)] kvs key assms(2)
    by (simp add: analyze_feedback_def analyze_try_def)
qed

lemma batch_results_contains:
  assumes "j < length xs" and "xs ! j = JStr s" and "s \<noteq> []"
    and "predict_sentiment tb s = Inr r"
  shows "Success j s (sentiment r) (confidence r) \<in> set (fst (batch_loop tb calls 0 xs [] db))"
proof -
  have "(j, JStr s) \<in> set (enumerate 0 xs)"
    using assms(1,2) by (simp add: in_set_enumerate_eq)
  moreover have "item_outcomes tb j (JStr s) = [Success j s (sentiment r) (confidence r)]"
    using assms(3,4) by (simp add: item_outcomes_def)
  ultimately show ?thesis
    unfolding batch_loop_results by force
qed

subsection \<open>Outcomes of an accepted batch\<close>

text \<open>
  Claim C3. For every accepted batch (non-empty, at most 100 items) \<open>batch_analyze\<close>
  handles the items in their order and keeps their indices: the indices of the outcome
  entries are exactly the indices of the items that are non-empty strings, in increasing
  order and once each, so such an item produces one entry and any other item none;
  every entry belongs to the item at its index; and the processed count is the length of
  the outcome list, which is at most the length of the input. In particular the batch
  \<^verbatim>\<open>["good", 42, "bad"]\<close> produces exactly two entries, at the indices 0 and 2, and the
  processed count 2.
\<close>

theorem batch_outcomes:
  "map_of kvs ''texts'' = Some (JList xs) \<and> xs \<noteq> [] \<and> length xs \<le> 100 \<longrightarrow>
     (\<exists>results db'.
        batch_analyze tb calls now db (JObj kvs) =
          ((200, BatchBody results (length results) now), db')
        \<and> map item_index results = filter (\<lambda>j. is_nonempty_str (xs ! j)) [0..<length xs]
        \<and> (\<forall>x \<in> set results. xs ! item_index x = JStr (item_text x))
        \<and> length results \<le> length xs)
   \<and> (\<exists>x0 x2 db'.
        batch_analyze tb calls now db (JObj [(''texts'', JList [JStr ''good'', JInt 42, JStr ''bad''])]) =
          ((200, BatchBody [x0, x2] 2 now), db')
        \<and> item_index x0 = 0 \<and> item_index x2 = 2)"
proof (intro conjI impI)
  assume a: "map_of kvs ''texts'' = Some (JList xs) \<and> xs \<noteq> [] \<and> length xs \<le> 100"
  let ?L = "batch_loop tb calls 0 xs [] db"
  have resp: "batch_analyze tb calls now db (JObj kvs) =
      ((200, BatchBody (fst ?L) (length (fst ?L)) now), snd ?L)"
    using a by (simp add: batch_analyze_accepted)
  have idx: "map item_index (fst ?L) = filter (\<lambda>j. is_nonempty_str (xs ! j)) [0..<length xs]"
    by (rule batch_results_indices)
  have ent: "\<forall>x \<in> set (fst ?L). xs ! item_index x = JStr (item_text x)"
    using batch_results_entries [of _ tb calls xs db] by fastforce
  have "length (fst ?L) = length (map item_index (fst ?L))"
    by simp
  also have "\<dots> \<le> length [0..<length xs]"
    unfolding idx by (rule length_filter_le)
  finally have len: "length (fst ?L) \<le> length xs"
    by simp
  from resp idx ent len
  show "\<exists>results db'.
        batch_analyze tb calls now db (JObj kvs) =
          ((200, BatchBody results (length results) now), db')
        \<and> map item_index results = filter (\<lambda>j. is_nonempty_str (xs ! j)) [0..<length xs]
        \<and> (\<forall>x \<in> set results. xs ! item_index x = JStr (item_text x))
        \<and> length results \<le> length xs"
    by blast
next
  let ?xs = "[JStr ''good'', JInt 42, JStr ''bad'']"
  let ?L = "batch_loop tb calls 0 ?xs [] db"
  obtain r0 where r0: "predict_sentiment tb ''good'' = Inr r0"
    using predict_sentiment_total by blast
  obtain r2 where r2: "predict_sentiment tb ''bad'' = Inr r2"
    using predict_sentiment_total by blast
  have res: "fst ?L = [Success 0 ''good'' (sentiment r0) (confidence r0),
                        Success 2 ''bad'' (sentiment r2) (confidence r2)]"
    unfolding batch_loop_results by (simp add: item_outcomes_def r0 r2 eval_nat_numeral)
  have "batch_analyze tb calls now db (JObj [(''texts'', JList ?xs)]) =
      ((200, BatchBody (fst ?L) (length (fst ?L)) now), snd ?L)"
    by (rule batch_analyze_accepted) simp_all
  then show "\<exists>x0 x2 db'.
        batch_analyze tb calls now db (JObj [(''texts'', JList ?xs)]) =
          ((200, BatchBody [x0, x2] 2 now), db')
        \<and> item_index x0 = 0 \<and> item_index x2 = 2"
    unfolding res by simp
qed

theorem batch_outcomes_witness:
  "map_of [(''texts'', JList [JStr ''good'', JInt 42, JStr ''bad''])] ''texts''
     = Some (JList [JStr ''good'', JInt 42, JStr ''bad''])
   \<and> filter (\<lambda>j. is_nonempty_str ([JStr ''good'', JInt 42, JStr ''bad''] ! j)) [0..<3] = [0, 2]
   \<and> fst (batch_analyze textblob_missing (\<lambda>i. sqlite_ok) ''2024-05-01T12:00:00+00:00''
           empty_database (JObj [(''texts'', JList [JStr ''good'', JInt 42, JStr ''bad''])]))
     = (200, BatchBody [Success 0 ''good'' ''positive'' 0.3, Success 2 ''bad'' ''negative'' 0.3] 2
               ''2024-05-01T12:00:00+00:00'')"
proof -
  have f: "filter (\<lambda>j. is_nonempty_str ([JStr ''good'', JInt 42, JStr ''bad''] ! j)) [0..<3] = [0, 2]"
    by code_simp
  have b: "fst (batch_analyze textblob_missing (\<lambda>i. sqlite_ok) ''2024-05-01T12:00:00+00:00''
           empty_database (JObj [(''texts'', JList [JStr ''good'', JInt 42, JStr ''bad''])]))
     = (200, BatchBody [Success 0 ''good'' ''positive'' 0.3, Success 2 ''bad'' ''negative'' 0.3] 2
               ''2024-05-01T12:00:00+00:00'')"
    by code_simp
  show ?thesis
    using batch_outcomes [of "[(''texts'', JList [JStr ''good'', JInt 42, JStr ''bad''])]"
        "[JStr ''good'', JInt 42, JStr ''bad'']" textblob_missing "\<lambda>i. sqlite_ok"
        "''2024-05-01T12:00:00+00:00''" empty_database] f b
    by simp
qed

subsection \<open>Rejected batches\<close>

text \<open>
  Claim C5. \<open>batch_analyze\<close> rejects every list of texts that is empty or longer than 100
  items: the answer is the 400 error, the store is unchanged, and neither the analyser nor
  SQLite has any influence on the result, so no item was classified or stored. This
  covers the empty list and every list of 101 items.
\<close>

theorem batch_rejects:
  "map_of kvs ''texts'' = Some (JList xs) \<and> (xs = [] \<or> 100 < length xs) \<longrightarrow>
     batch_analyze tb calls now db (JObj kvs) =
       ((400, ErrorBody (if xs = [] then ''texts must be a non-empty list''
                         else ''Batch size too large (max 100)'')), db)"
  using batch_analyze_rejected [of kvs xs tb calls now db] by blast

theorem batch_rejects_witness:
  "batch_analyze textblob_half (\<lambda>i. sqlite_ok) ''2024-05-01T12:00:00+00:00'' sample_store
       (JObj [(''texts'', JList [])])
     = ((400, ErrorBody ''texts must be a non-empty list''), sample_store)
   \<and> length (replicate 101 (JStr ''good'')) = 101
   \<and> batch_analyze textblob_half (\<lambda>i. sqlite_ok) ''2024-05-01T12:00:00+00:00'' sample_store
       (JObj [(''texts'', JList (replicate 101 (JStr ''good'')))])
     = ((400, ErrorBody ''Batch size too large (max 100)''), sample_store)"
proof -
  have ne: "replicate 101 (JStr ''good'') \<noteq> []"
    by (simp add: replicate_empty)
  show ?thesis
    using batch_rejects [of "[(''texts'', JList [])]" "[]" textblob_half "\<lambda>i. sqlite_ok"
        "''2024-05-01T12:00:00+00:00''" sample_store]
      batch_rejects [of "[(''texts'', JList (replicate 101 (JStr ''good'')))]"
        "replicate 101 (JStr ''good'')" textblob_half "\<lambda>i. sqlite_ok"
        "''2024-05-01T12:00:00+00:00''" sample_store] ne
    by simp
qed

subsection \<open>The error outcome\<close>

text \<open>
  Claim C9. Within an accepted batch every outcome entry is a success outcome: the branch
  that appends an error entry is never taken, because \<open>predict_sentiment\<close> always returns
  (it catches the errors of TextBlob and falls back on the keyword model), and
  \<open>store_prediction\<close> always returns (it catches the errors of SQLite), so the
  \<^verbatim>\<open>try\<close> block for a non-empty string is never left by an exception.
\<close>

theorem batch_no_error_outcome:
  "(map_of kvs ''texts'' = Some (JList xs) \<and> xs \<noteq> [] \<and> length xs \<le> 100 \<longrightarrow>
      (\<exists>results db'.
         batch_analyze tb calls now db (JObj kvs) =
           ((200, BatchBody results (length results) now), db')
         \<and> (\<forall>x \<in> set results. is_success x)))
   \<and> (\<exists>r. predict_sentiment tb s = Inr r)
   \<and> (\<exists>rid db'. store_prediction call db s l c None None = Inr (rid, db'))
   \<and> (s \<noteq> [] \<longrightarrow> fst (batch_item tb call i s results0 db) = None)"
proof (intro conjI impI)
  assume a: "map_of kvs ''texts'' = Some (JList xs) \<and> xs \<noteq> [] \<and> length xs \<le> 100"
  let ?L = "batch_loop tb calls 0 xs [] db"
  have resp: "batch_analyze tb calls now db (JObj kvs) =
      ((200, BatchBody (fst ?L) (length (fst ?L)) now), snd ?L)"
    using a by (simp add: batch_analyze_accepted)
  have "\<forall>x \<in> set (fst ?L). is_success x"
    using batch_results_entries [of _ tb calls xs db] by fastforce
  with resp show "\<exists>results db'.
         batch_analyze tb calls now db (JObj kvs) =
           ((200, BatchBody results (length results) now), db')
         \<and> (\<forall>x \<in> set results. is_success x)"
    by blast
next
  show "\<exists>r. predict_sentiment tb s = Inr r"
    by (rule predict_sentiment_total)
next
  show "\<exists>rid db'. store_prediction call db s l c None None = Inr (rid, db')"
    by (rule store_prediction_total)
next
  assume "s \<noteq> []"
  then show "fst (batch_item tb call i s results0 db) = None"
    by (simp add: batch_item_eq)
qed

theorem batch_no_error_outcome_witness:
  "batch_analyze textblob_broken (\<lambda>i. sqlite_down) ''2024-05-01T12:00:00+00:00'' empty_database
       (JObj [(''texts'', JList [JStr ''good'', JStr ''This is terrible and awful''])])
     = ((200, BatchBody [Success 0 ''good'' ''positive'' 0.3,
                         Success 1 ''This is terrible and awful'' ''negative'' 0.6] 2
                ''2024-05-01T12:00:00+00:00''), empty_database)
   \<and> is_success (Success 0 ''good'' ''positive'' 0.3)
   \<and> is_success (Success 1 ''This is terrible and awful'' ''negative'' 0.6)"
proof -
  have b: "batch_analyze textblob_broken (\<lambda>i. sqlite_down) ''2024-05-01T12:00:00+00:00''
       empty_database (JObj [(''texts'', JList [JStr ''good'', JStr ''This is terrible and awful''])])
     = ((200, BatchBody [Success 0 ''good'' ''positive'' 0.3,
                         Success 1 ''This is terrible and awful'' ''negative'' 0.6] 2
                ''2024-05-01T12:00:00+00:00''), empty_database)"
    by code_simp
  show ?thesis
    using batch_no_error_outcome [of "[(''texts'', JList [JStr ''good'', JStr ''This is terrible and awful''])]"
        "[JStr ''good'', JStr ''This is terrible and awful'']" textblob_broken "\<lambda>i. sqlite_down"
        "''2024-05-01T12:00:00+00:00''" empty_database "''good''" sqlite_down "''positive''" "0.3" 0 "[]"] b
    by simp
qed

subsection \<open>A whitespace-only item\<close>

text \<open>
  Claim C10. A non-empty item of an accepted batch that consists of whitespace only is
  neither skipped nor rejected: it is classified, its success outcome is among the
  results and so counted in the processed count, on the fallback path its label is
  \<^verbatim>\<open>neutral\<close> with confidence \<open>0.1\<close>, and when SQLite does not fail at its insert it
  is a new row of the store. \<open>analyze_feedback\<close> rejects the same text with the 400
  error \<^verbatim>\<open>Invalid text input\<close>, before any classification and without touching the
  store.
\<close>

theorem blank_item_batch_versus_single:
  "map_of kvs ''texts'' = Some (JList xs) \<and> xs \<noteq> [] \<and> length xs \<le> 100
   \<and> j < length xs \<and> xs ! j = JStr s \<and> s \<noteq> [] \<and> (\<forall>c \<in> set s. py_isspace c)
   \<and> map_of kvs1 ''text'' = Some (JStr s) \<longrightarrow>
     (\<exists>results db' r.
        batch_analyze tb calls now db (JObj kvs) =
          ((200, BatchBody results (length results) now), db')
        \<and> predict_sentiment tb s = Inr r
        \<and> Success j s (sentiment r) (confidence r) \<in> set results
        \<and> (\<not> textblob_available tb \<or> (\<exists>e. textblob_polarity tb s = Inl e) \<longrightarrow>
               sentiment r = ''neutral'' \<and> confidence r = 0.1)
        \<and> (fault (calls j) = None \<longrightarrow>
               (\<exists>row \<in> set (predictions db').
                  input_text row = s \<and> sentiment_label row = sentiment r
                  \<and> sentiment_confidence row = confidence r
                  \<and> sqlite_sequence db < row_id row)))
     \<and> analyze_feedback tb call now db (JObj kvs1) = ((400, ErrorBody ''Invalid text input''), db)"
proof (intro impI)
  assume a: "map_of kvs ''texts'' = Some (JList xs) \<and> xs \<noteq> [] \<and> length xs \<le> 100
   \<and> j < length xs \<and> xs ! j = JStr s \<and> s \<noteq> [] \<and> (\<forall>c \<in> set s. py_isspace c)
   \<and> map_of kvs1 ''text'' = Some (JStr s)"
  then have j: "j < length xs" and xj: "xs ! j = JStr s" and s: "s \<noteq> []"
    and blank: "\<forall>c \<in> set s. py_isspace c" and k1: "map_of kvs1 ''text'' = Some (JStr s)"
    by simp_all
  let ?L = "batch_loop tb calls 0 xs [] db"
  obtain r where r: "predict_sentiment tb s = Inr r"
    using predict_sentiment_total by blast
  have resp: "batch_analyze tb calls now db (JObj kvs) =
      ((200, BatchBody (fst ?L) (length (fst ?L)) now), snd ?L)"
    using a by (simp add: batch_analyze_accepted)
  have mem: "Success j s (sentiment r) (confidence r) \<in> set (fst ?L)"
    by (rule batch_results_contains [OF j xj s r])
  have fb: "\<not> textblob_available tb \<or> (\<exists>e. textblob_polarity tb s = Inl e) \<longrightarrow>
               sentiment r = ''neutral'' \<and> confidence r = 0.1"
  proof
    assume "\<not> textblob_available tb \<or> (\<exists>e. textblob_polarity tb s = Inl e)"
    then have "predict_sentiment tb s = Inr (keyword_fallback s)"
      by (auto simp: predict_sentiment_def)
    with r have "r = keyword_fallback s" by simp
    then show "sentiment r = ''neutral'' \<and> confidence r = 0.1"
      by (simp add: keyword_fallback_blank [OF blank])
  qed
  have row: "fault (calls j) = None \<longrightarrow>
               (\<exists>row \<in> set (predictions (snd ?L)).
                  input_text row = s \<and> sentiment_label row = sentiment r
                  \<and> sentiment_confidence row = confidence r
                  \<and> sqlite_sequence db < row_id row)"
    using batch_loop_persists [OF j xj s _ r, of calls 0 "[]" db] by simp
  have single: "analyze_feedback tb call now db (JObj kvs1) =
      ((400, ErrorBody ''Invalid text input''), db)"
    by (rule analyze_feedback_blank [OF blank k1])
  have "batch_analyze tb calls now db (JObj kvs) =
          ((200, BatchBody (fst ?L) (length (fst ?L)) now), snd ?L)
        \<and> predict_sentiment tb s = Inr r
        \<and> Success j s (sentiment r) (confidence r) \<in> set (fst ?L)
        \<and> (\<not> textblob_available tb \<or> (\<exists>e. textblob_polarity tb s = Inl e) \<longrightarrow>
               sentiment r = ''neutral'' \<and> confidence r = 0.1)
        \<and> (fault (calls j) = None \<longrightarrow>
               (\<exists>row \<in> set (predictions (snd ?L)).
                  input_text row = s \<and> sentiment_label row = sentiment r
                  \<and> sentiment_confidence row = confidence r
                  \<and> sqlite_sequence db < row_id row))"
    using resp r mem fb row by (intro conjI)
  then have "\<exists>results db' r.
        batch_analyze tb calls now db (JObj kvs) =
          ((200, BatchBody results (length results) now), db')
        \<and> predict_sentiment tb s = Inr r
        \<and> Success j s (sentiment r) (confidence r) \<in> set results
        \<and> (\<not> textblob_available tb \<or> (\<exists>e. textblob_polarity tb s = Inl e) \<longrightarrow>
               sentiment r = ''neutral'' \<and> confidence r = 0.1)
        \<and> (fault (calls j) = None \<longrightarrow>
               (\<exists>row \<in> set (predictions db').
                  input_text row = s \<and> sentiment_label row = sentiment r
                  \<and> sentiment_confidence row = confidence r
                  \<and> sqlite_sequence db < row_id row))"
    by (intro exI)
  with single
  show "(\<exists>results db' r.
        batch_analyze tb calls now db (JObj kvs) =
          ((200, BatchBody results (length results) now), db')
        \<and> predict_sentiment tb s = Inr r
        \<and> Success j s (sentiment r) (confidence r) \<in> set results
        \<and> (\<not> textblob_available tb \<or> (\<exists>e. textblob_polarity tb s = Inl e) \<longrightarrow>
               sentiment r = ''neutral'' \<and> confidence r = 0.1)
        \<and> (fault (calls j) = None \<longrightarrow>
               (\<exists>row \<in> set (predictions db').
                  input_text row = s \<and> sentiment_label row = sentiment r
                  \<and> sentiment_confidence row = confidence r
                  \<and> sqlite_sequence db < row_id row)))
     \<and> analyze_feedback tb call now db (JObj kvs1) = ((400, ErrorBody ''Invalid text input''), db)"
    by (rule conjI [rotated])
qed

theorem blank_item_batch_versus_single_witness:
  "list_all py_isspace ''   ''
   \<and> batch_analyze textblob_missing (\<lambda>i. sqlite_ok) ''2024-05-01T12:00:00+00:00'' empty_database
       (JObj [(''texts'', JList [JStr ''   ''])])
     = ((200, BatchBody [Success 0 ''   '' ''neutral'' 0.1] 1 ''2024-05-01T12:00:00+00:00''),
        \<lparr>predictions =
           [\<lparr>row_id = 1, input_text = ''   '', sentiment_label = ''neutral'',
             sentiment_confidence = 0.1, topics = None, metadata = None,
             created_at = ''2024-05-01 12:00:00''\<rparr>],
         sqlite_sequence = 1\<rparr>)
   \<and> analyze_feedback textblob_missing sqlite_ok ''2024-05-01T12:00:00+00:00'' empty_database
       (JObj [(''text'', JStr ''   '')])
     = ((400, ErrorBody ''Invalid text input''), empty_database)"
proof -
  have sp: "list_all py_isspace ''   ''"
    by (simp add: py_isspace_def)
  have b: "batch_analyze textblob_missing (\<lambda>i. sqlite_ok) ''2024-05-01T12:00:00+00:00''
       empty_database (JObj [(''texts'', JList [JStr ''   ''])])
     = ((200, BatchBody [Success 0 ''   '' ''neutral'' 0.1] 1 ''2024-05-01T12:00:00+00:00''),
        \<lparr>predictions =
           [\<lparr>row_id = 1, input_text = ''   '', sentiment_label = ''neutral'',
             sentiment_confidence = 0.1, topics = None, metadata = None,
             created_at = ''2024-05-01 12:00:00''\<rparr>],
         sqlite_sequence = 1\<rparr>)"
    by code_simp
  show ?thesis
    using blank_item_batch_versus_single [of "[(''texts'', JList [JStr ''   ''])]" "[JStr ''   '']"
        0 "''   ''" "[(''text'', JStr ''   '')]" textblob_missing "\<lambda>i. sqlite_ok"
        "''2024-05-01T12:00:00+00:00''" empty_database sqlite_ok] sp b
    by (simp add: list_all_iff)
qed

end
